theory Spec2Isabelle
  imports Main "HOL-Library.Word"
begin

unbundle bit_operations_syntax

section \<open>Requests and the approximate request size\<close>

text \<open>
  The part of \<^verbatim>\<open>*http.Request\<close> that \<^verbatim>\<open>metrics.go\<close> reads. Strings are byte
  strings, as in Go, so \<open>length\<close> is Go's \<^verbatim>\<open>len\<close>. The URL is a pointer that may be
  nil, hence an option. The header is a Go map from a name to a list of values, given
  here as the list of its entries in the order one iteration visits them.
  \<^verbatim>\<open>ContentLength\<close> is an \<^verbatim>\<open>int64\<close>. Go's \<^verbatim>\<open>int\<close> is taken to be 64 bits wide
  (as on amd64 and arm64), so the conversion \<^verbatim>\<open>int(r.ContentLength)\<close> is the
  identity and \<open>+\<close> wraps around modulo \<open>2 ^ 64\<close>.
\<close>

record url =
  Path :: string

record request =
  URL :: "url option"
  Method :: string
  Proto :: string
  Header :: "(string \<times> string list) list"
  Host :: string
  ContentLength :: "64 word"

definition len :: "string \<Rightarrow> 64 word" where
  "len s = of_nat (length s)"

definition computeApproximateRequestSize :: "request \<Rightarrow> 64 word" where
  "computeApproximateRequestSize r =
     (let s = 0;
          s = (case URL r of Some u \<Rightarrow> len (Path u) | None \<Rightarrow> s);
          s = s + len (Method r);
          s = s + len (Proto r);
          s = fold (\<lambda>(name, values) s.
                      fold (\<lambda>value s. s + len value) values (s + len name))
                (Header r) s;
          s = s + len (Host r);
          s = (if ContentLength r \<noteq> - 1 then s + ContentLength r else s)
      in s)"

text \<open>The number of bytes of all header names and all header values, as a mathematical integer.\<close>

definition header_bytes :: "(string \<times> string list) list \<Rightarrow> int" where
  "header_bytes hs =
     (\<Sum>(name, values) \<leftarrow> hs. int (length name) + (\<Sum>value \<leftarrow> values. int (length value)))"

section \<open>The request size: proofs\<close>

lemma header_bytes_Nil: "header_bytes [] = 0"
  by (simp add: header_bytes_def)

lemma header_bytes_Cons:
  "header_bytes ((name, vs) # hs)
     = int (length name) + (\<Sum>value \<leftarrow> vs. int (length value)) + header_bytes hs"
  by (simp add: header_bytes_def)

lemma len_int: "len s = word_of_int (int (length s))"
  by (simp add: len_def)

lemma fold_values:
  "fold (\<lambda>value s. s + len value) vs s
     = s + word_of_int (\<Sum>value \<leftarrow> vs. int (length value))"
proof (induction vs arbitrary: s)
  case Nil
  show ?case by simp
next
  case (Cons v vs)
  have "fold (\<lambda>value s. s + len value) (v # vs) s
          = s + len v + word_of_int (\<Sum>value \<leftarrow> vs. int (length value))"
    by (simp add: Cons.IH)
  also have "\<dots> = s + word_of_int (\<Sum>value \<leftarrow> v # vs. int (length value))"
    by (simp add: len_int add.assoc)
  finally show ?case .
qed

lemma fold_header_sums:
  "fold (\<lambda>(name, values) s.
           s + len name + word_of_int (\<Sum>value \<leftarrow> values. int (length value))) hs s
     = s + word_of_int (header_bytes hs)"
proof (induction hs arbitrary: s)
  case Nil
  show ?case by (simp add: header_bytes_Nil)
next
  case (Cons h hs)
  obtain name vs where h: "h = (name, vs)" by (cases h)
  let ?step = "\<lambda>(name, values) s.
     s + len name + word_of_int (\<Sum>value \<leftarrow> values. int (length value))"
  have "fold ?step (h # hs) s
          = s + len name + word_of_int (\<Sum>value \<leftarrow> vs. int (length value))
            + word_of_int (header_bytes hs)"
    unfolding h by (simp add: Cons.IH)
  also have "\<dots> = s + word_of_int (header_bytes (h # hs))"
    unfolding h header_bytes_Cons len_int by (simp add: add.assoc)
  finally show ?case .
qed

lemma fold_header:
  "fold (\<lambda>(name, values) s. fold (\<lambda>value s. s + len value) values (s + len name)) hs s
     = s + word_of_int (header_bytes hs)"
  by (simp add: fold_values fold_header_sums)

lemma computeApproximateRequestSize_word:
  "computeApproximateRequestSize r
     = (case URL r of Some u \<Rightarrow> len (Path u) | None \<Rightarrow> 0)
       + len (Method r) + len (Proto r) + word_of_int (header_bytes (Header r))
       + len (Host r) + (if ContentLength r = - 1 then 0 else ContentLength r)"
  by (simp add: computeApproximateRequestSize_def Let_def fold_header)

text \<open>
  C10: \<^verbatim>\<open>computeApproximateRequestSize\<close> is total on a request whose URL is nil: the
  nil check skips the only dereference of the pointer, so the function has no failing
  branch, the path contributes zero and the other summands are the ones of the request.
\<close>

theorem computeApproximateRequestSize_nil_URL:
  "computeApproximateRequestSize (r\<lparr>URL := None\<rparr>)
     = len (Method r) + len (Proto r) + word_of_int (header_bytes (Header r))
       + len (Host r) + (if ContentLength r = - 1 then 0 else ContentLength r)
   \<and> computeApproximateRequestSize (r\<lparr>URL := None\<rparr>)
     = computeApproximateRequestSize (r\<lparr>URL := Some \<lparr>Path = []\<rparr>\<rparr>)"
  by (simp add: computeApproximateRequestSize_word len_def)

end
